theory Spec2Isabelle
  imports Complex_Main "HOL-Library.AList"
begin

section \<open>Values of the scripting language\<close>

text \<open>
  The handlers of \<^verbatim>\<open>tabsMethods.js\<close> receive dynamically typed parameters, test them
  with \<^verbatim>\<open>typeof\<close> and by truthiness, and build plain objects. The values are modelled by
  one datatype. Numbers are kept exact (\<open>rat\<close>); the rounding of IEEE doubles and the
  infinities are not modelled, \<open>JNaN\<close> stands for the one number besides zero that is
  falsy. Objects are association lists in property order.
\<close>

datatype jsval =
    JUndefined
  | JNull
  | JBool bool
  | JNum rat
  | JNaN
  | JStr string
  | JObj "(string \<times> jsval) list"

text \<open>The \<^verbatim>\<open>typeof\<close> operator.\<close>

fun typeof :: "jsval \<Rightarrow> string" where
  "typeof JUndefined = ''undefined''"
| "typeof JNull = ''object''"
| "typeof (JBool b) = ''boolean''"
| "typeof (JNum q) = ''number''"
| "typeof JNaN = ''number''"
| "typeof (JStr s) = ''string''"
| "typeof (JObj ps) = ''object''"

text \<open>The conversion to a boolean that \<^verbatim>\<open>if (reject)\<close> applies.\<close>

fun truthy :: "jsval \<Rightarrow> bool" where
  "truthy JUndefined = False"
| "truthy JNull = False"
| "truthy (JBool b) = b"
| "truthy (JNum q) = (q \<noteq> 0)"
| "truthy JNaN = False"
| "truthy (JStr s) = (s \<noteq> [])"
| "truthy (JObj ps) = True"

text \<open>
  \<^verbatim>\<open>Object.assign(target, source)\<close> copies every property of the source onto the
  target, in the source's order. \<^verbatim>\<open>Object.freeze\<close> needs no counterpart: values are
  immutable here.
\<close>

definition object_assign :: "jsval \<Rightarrow> jsval \<Rightarrow> jsval" where
  "object_assign target source =
     (case (target, source) of
        (JObj t, JObj s) \<Rightarrow> JObj (fold (\<lambda>(k, v). AList.update k v) s t)
      | _ \<Rightarrow> target)"

section \<open>Errors and outcomes\<close>

text \<open>
  Modelled from the spec: \<^verbatim>\<open>lib/scriptErrors\<close> is not among the sources. Its two
  constructors \<^verbatim>\<open>illegalArgumentError\<close> and \<^verbatim>\<open>newPageWaitTimeoutError\<close> build an error
  of the kind the spec calls \<open>IllegalArgument\<close> and \<open>NewPageWaitTimeout\<close> from a message,
  and \<^verbatim>\<open>CONTENT_SCRIPT_ABORTED_ERROR\<close> is the name of the \<open>AbortedExecution\<close> condition.
  The name of an error is a tag; every other name is \<open>OtherError\<close>.

  A message is the list of the parts of a template literal: literal text and substituted
  values. The conversion of a substituted number to text is left symbolic.
\<close>

datatype error_name = IllegalArgument | NewPageWaitTimeout | AbortedExecution | OtherError string

datatype template_part = Lit string | Subst jsval

record js_error =
  name :: error_name
  message :: "template_part list"

definition illegalArgumentError :: "template_part list \<Rightarrow> js_error" where
  "illegalArgumentError msg = \<lparr>name = IllegalArgument, message = msg\<rparr>"

definition newPageWaitTimeoutError :: "template_part list \<Rightarrow> js_error" where
  "newPageWaitTimeoutError msg = \<lparr>name = NewPageWaitTimeout, message = msg\<rparr>"

definition CONTENT_SCRIPT_ABORTED_ERROR :: error_name where
  "CONTENT_SCRIPT_ABORTED_ERROR = AbortedExecution"

text \<open>
  Modelled from the spec: the result of a content script is an \<open>ExecutionOutcome\<close>,
  either \<^verbatim>\<open>{resolve: value}\<close> or \<^verbatim>\<open>{reject: value}\<close>, exactly one of the two fields
  populated. The destructuring \<^verbatim>\<open>const {reject} = outcome\<close> reads the \<^verbatim>\<open>reject\<close> field,
  which is \<^verbatim>\<open>undefined\<close> on a resolve outcome.
\<close>

datatype outcome = Resolve jsval | Reject jsval

fun reject_field :: "outcome \<Rightarrow> jsval" where
  "reject_field (Reject v) = v"
| "reject_field (Resolve v) = JUndefined"

section \<open>The tab manager and the timing primitives\<close>

text \<open>
  The module is a function of the tab manager; \<^verbatim>\<open>Date.now\<close>, \<^verbatim>\<open>delay\<close> and
  \<^verbatim>\<open>Promise.race\<close> come from the runtime. All of them are external, so they are fields of
  one record of state-passing functions over a state \<open>'s\<close> that stands for everything
  outside the module: the tabs, the pages, the clock, the event loop.

  Modelled from the spec: the tab manager's interface is \<^verbatim>\<open>createTab() -> Tab\<close>,
  \<^verbatim>\<open>hasTab(id) -> bool\<close>, \<^verbatim>\<open>navigateTab(id, url) -> result\<close>,
  \<^verbatim>\<open>runContentScript(id, code, {arg, metadata}) -> ExecutionOutcome\<close> and
  \<^verbatim>\<open>waitForNewContent(id) -> pending signal\<close>, and \<^verbatim>\<open>delay(ms)\<close> is a pending signal that
  completes after \<open>ms\<close>. An asynchronous method that fails returns \<open>Inl\<close> of the error.
  A pending signal is a handle. Awaiting \<^verbatim>\<open>Promise.race([a, b])\<close> suspends until the
  first of the two signals completes, and which one that is is the environment's choice.
\<close>

record tab =
  tab_id :: jsval

type_synonym signal = nat

datatype settled = FirstSettled | SecondSettled

record 's host =
  tm_createTab :: "'s \<Rightarrow> (js_error + tab) \<times> 's"
  tm_hasTab :: "jsval \<Rightarrow> 's \<Rightarrow> bool \<times> 's"
  tm_navigateTab :: "jsval \<Rightarrow> jsval \<Rightarrow> 's \<Rightarrow> (js_error + jsval) \<times> 's"
  tm_runContentScript :: "jsval \<Rightarrow> jsval \<Rightarrow> jsval \<Rightarrow> 's \<Rightarrow> (js_error + outcome) \<times> 's"
  tm_waitForNewContent :: "jsval \<Rightarrow> 's \<Rightarrow> signal \<times> 's"
  date_now :: "'s \<Rightarrow> nat \<times> 's"
  delay :: "rat \<Rightarrow> 's \<Rightarrow> signal \<times> 's"
  promise_race :: "signal \<Rightarrow> signal \<Rightarrow> 's \<Rightarrow> settled \<times> 's"

section \<open>The URL pattern\<close>

text \<open>
  \<^verbatim>\<open>ALLOWED_URL_REGEXP = /^https?:\/\//\<close>. The pattern is a sequence of characters, one
  of them optional, anchored at the start of the input. The matcher tries the optional
  character first and falls back to skipping it.
\<close>

datatype regexp_item = Chr char | Opt char

fun match_here :: "regexp_item list \<Rightarrow> string \<Rightarrow> bool" where
  "match_here [] s = True"
| "match_here (Chr c # r) [] = False"
| "match_here (Chr c # r) (x # xs) = (x = c \<and> match_here r xs)"
| "match_here (Opt c # r) [] = match_here r []"
| "match_here (Opt c # r) (x # xs) = ((x = c \<and> match_here r xs) \<or> match_here r (x # xs))"

definition ALLOWED_URL_REGEXP :: "regexp_item list" where
  "ALLOWED_URL_REGEXP = map Chr ''http'' @ [Opt CHR ''s''] @ map Chr ''://''"

definition regexp_test :: "regexp_item list \<Rightarrow> string \<Rightarrow> bool" where
  "regexp_test r s = match_here r s"

section \<open>The handlers\<close>

text \<open>
  The condition \<^verbatim>\<open>typeof id !== 'string' || !tabManager.hasTab(id)\<close> that opens four of
  the handlers. The right operand is evaluated only when the left one is false.
\<close>

definition invalid_id :: "'s host \<Rightarrow> jsval \<Rightarrow> 's \<Rightarrow> bool \<times> 's" where
  "invalid_id h idv s =
     (if typeof idv \<noteq> ''string'' then (True, s)
      else (case tm_hasTab h idv s of (known, s1) \<Rightarrow> (\<not> known, s1)))"

definition createTab :: "'s host \<Rightarrow> 's \<Rightarrow> (js_error + jsval) \<times> 's" where
  "createTab h s =
     (case tm_createTab h s of
        (Inl err, s1) \<Rightarrow> (Inl err, s1)
      | (Inr t, s1) \<Rightarrow> (Inr (tab_id t), s1))"

definition navigateTab :: "'s host \<Rightarrow> jsval \<Rightarrow> jsval \<Rightarrow> 's \<Rightarrow> (js_error + jsval) \<times> 's" where
  "navigateTab h idv url s =
     (case invalid_id h idv s of (bad, s1) \<Rightarrow>
        if bad
        then (Inl (illegalArgumentError [Lit ''tabs.navigate(): invalid argument `id`'']), s1)
        else if (case url of JStr u \<Rightarrow> \<not> regexp_test ALLOWED_URL_REGEXP u | _ \<Rightarrow> True)
        then (Inl (illegalArgumentError
                [Lit ''tabs.navigate(): `url` argument must be an absolute HTTP URL'']), s1)
        else tm_navigateTab h idv url s1)"

definition run :: "'s host \<Rightarrow> jsval \<Rightarrow> jsval \<Rightarrow> jsval \<Rightarrow> 's \<Rightarrow> (js_error + outcome) \<times> 's" where
  "run h idv code arg s =
     (case invalid_id h idv s of (bad, s1) \<Rightarrow>
        if bad
        then (Inl (illegalArgumentError [Lit ''tabs.run(): invalid argument `id`'']), s1)
        else if typeof code \<noteq> ''string''
        then (Inl (illegalArgumentError [Lit ''tabs.run(): invalid argument `code`'']), s1)
        else (case date_now h s1 of (t, s2) \<Rightarrow>
          let metadata = JObj [(''runBeginTime'', JNum (of_nat t))]
          in tm_runContentScript h idv code (JObj [(''arg'', arg), (''metadata'', metadata)]) s2))"

text \<open>
  The last step of \<^verbatim>\<open>waitForNewPage\<close>: the timer is created, then the observation and
  the timer are raced. The second entry of the race is the timer followed by a rejection,
  so the timer completing first makes the call fail. The timeout is a number of
  milliseconds; the quotient \<^verbatim>\<open>timeoutMs / 1000\<close> is the part substituted into the message.
\<close>

definition race_new_content :: "'s host \<Rightarrow> signal \<Rightarrow> rat \<Rightarrow> 's \<Rightarrow> (js_error + outcome) \<times> 's" where
  "race_new_content h waitForNewContentPromise timeoutMs s =
     (case delay h timeoutMs s of (timer, s1) \<Rightarrow>
        (case promise_race h waitForNewContentPromise timer s1 of
           (FirstSettled, s2) \<Rightarrow> (Inr (Reject JNull), s2)
         | (SecondSettled, s2) \<Rightarrow>
             (Inl (newPageWaitTimeoutError
                [Lit ''Waiting for a new page timed out after '',
                 Subst (JNum (timeoutMs / 1000)),
                 Lit '' seconds'']), s2)))"

text \<open>
  \<^verbatim>\<open>waitForNewPage\<close>. The observation is requested first, then the script runs. A truthy
  \<^verbatim>\<open>reject\<close> is returned at once, an error other than the abort is rethrown, and every
  other case falls through to the race.
\<close>

definition waitForNewPage ::
  "'s host \<Rightarrow> jsval \<Rightarrow> jsval \<Rightarrow> jsval \<Rightarrow> rat \<Rightarrow> 's \<Rightarrow> (js_error + outcome) \<times> 's"
where
  "waitForNewPage h idv code arg timeoutMs s =
     (case invalid_id h idv s of (bad, s1) \<Rightarrow>
        if bad
        then (Inl (illegalArgumentError [Lit ''tabs.run(): invalid argument `id`'']), s1)
        else if typeof code \<noteq> ''string''
        then (Inl (illegalArgumentError [Lit ''tabs.run(): invalid argument `code`'']), s1)
        else (case date_now h s1 of (t, s2) \<Rightarrow>
          let metadata = JObj [(''runBeginTime'', JNum (of_nat t))]
          in (case tm_waitForNewContent h idv s2 of (waitForNewContentPromise, s3) \<Rightarrow>
            (case tm_runContentScript h idv code
                    (JObj [(''arg'', arg), (''metadata'', metadata)]) s3 of
               (Inr out, s4) \<Rightarrow>
                 let reject = reject_field out
                 in if truthy reject then (Inr (Reject reject), s4)
                    else race_new_content h waitForNewContentPromise timeoutMs s4
             | (Inl err, s4) \<Rightarrow>
                 if name err \<noteq> CONTENT_SCRIPT_ABORTED_ERROR then (Inl err, s4)
                 else race_new_content h waitForNewContentPromise timeoutMs s4))))"

text \<open>
  \<^verbatim>\<open>wait\<close> and its inner function \<^verbatim>\<open>attempt\<close>, whose free variables \<^verbatim>\<open>id\<close>,
  \<^verbatim>\<open>code\<close>, \<^verbatim>\<open>arg\<close> and \<^verbatim>\<open>waitMetadata\<close> are parameters here. The recursion has no
  bound, so \<^verbatim>\<open>attempt\<close> is a partial function: \<open>None\<close> is a call that never returns.
  The attempt counter is a natural number. The source's counter is a double, exact up to
  \<open>2 ^ 53\<close>; every attempt still pending keeps its frame, so a chain of that length is
  out of reach.
\<close>

partial_function (option) attempt ::
  "'s host \<Rightarrow> jsval \<Rightarrow> jsval \<Rightarrow> jsval \<Rightarrow> jsval \<Rightarrow> nat \<Rightarrow> 's \<Rightarrow> ((js_error + outcome) \<times> 's) option"
where
  "attempt h idv code arg waitMetadata attemptNumber s =
     (case date_now h s of (t, s1) \<Rightarrow>
        let metadata = object_assign
              (JObj [(''attemptNumber'', JNum (of_nat attemptNumber)),
                     (''runBeginTime'', JNum (of_nat t))])
              waitMetadata
        in (case tm_runContentScript h idv code
                   (JObj [(''arg'', arg), (''metadata'', metadata)]) s1 of
              (Inr out, s2) \<Rightarrow> Some (Inr out, s2)
            | (Inl err, s2) \<Rightarrow>
                if name err = CONTENT_SCRIPT_ABORTED_ERROR
                then attempt h idv code arg waitMetadata (attemptNumber + 1) s2
                else Some (Inl err, s2)))"

declare attempt.simps [code]

definition wait ::
  "'s host \<Rightarrow> jsval \<Rightarrow> jsval \<Rightarrow> jsval \<Rightarrow> 's \<Rightarrow> ((js_error + outcome) \<times> 's) option"
where
  "wait h idv code arg s =
     (case invalid_id h idv s of (bad, s1) \<Rightarrow>
        if bad
        then Some (Inl (illegalArgumentError [Lit ''tabs.wait(): invalid argument `id`'']), s1)
        else if typeof code \<noteq> ''string''
        then Some (Inl (illegalArgumentError [Lit ''tabs.wait(): invalid argument `code`'']), s1)
        else (case date_now h s1 of (t, s2) \<Rightarrow>
          let waitMetadata = JObj [(''waitBeginTime'', JNum (of_nat t))]
          in attempt h idv code arg waitMetadata 0 s2))"

text \<open>The registry: the command names and the handler each one is bound to.\<close>

datatype handler = H_createTab | H_navigateTab | H_run | H_wait | H_waitForNewPage

definition registry :: "(string \<times> handler) list" where
  "registry =
     [(''tabs.create'', H_createTab),
      (''tabs.navigate'', H_navigateTab),
      (''tabs.run'', H_run),
      (''tabs.wait'', H_wait),
      (''tabs.waitForNewPage'', H_waitForNewPage)]"

section \<open>The order of calls\<close>

text \<open>
  To speak about which external calls a handler makes and in which order, a host is
  instrumented: every method appends its call to a log kept beside the state, and
  otherwise behaves as before. \<^verbatim>\<open>Date.now\<close> only reads the clock and is not logged.
\<close>

datatype call =
    CreateTab
  | HasTab jsval
  | NavigateTab jsval jsval
  | RunContentScript jsval jsval jsval
  | WaitForNewContent jsval
  | Delay rat
  | PromiseRace signal signal

fun tab_manager_call :: "call \<Rightarrow> bool" where
  "tab_manager_call (Delay ms) = False"
| "tab_manager_call (PromiseRace a b) = False"
| "tab_manager_call c = True"

definition logged :: "call \<Rightarrow> ('s \<Rightarrow> 'a \<times> 's) \<Rightarrow> 's \<times> call list \<Rightarrow> 'a \<times> ('s \<times> call list)" where
  "logged c f = (\<lambda>(s, tr). case f s of (r, s1) \<Rightarrow> (r, (s1, tr @ [c])))"

definition instrument :: "'s host \<Rightarrow> ('s \<times> call list) host" where
  "instrument h =
     \<lparr>tm_createTab = logged CreateTab (tm_createTab h),
      tm_hasTab = (\<lambda>idv. logged (HasTab idv) (tm_hasTab h idv)),
      tm_navigateTab = (\<lambda>idv url. logged (NavigateTab idv url) (tm_navigateTab h idv url)),
      tm_runContentScript =
        (\<lambda>idv code opts. logged (RunContentScript idv code opts) (tm_runContentScript h idv code opts)),
      tm_waitForNewContent = (\<lambda>idv. logged (WaitForNewContent idv) (tm_waitForNewContent h idv)),
      date_now = (\<lambda>(s, tr). case date_now h s of (t, s1) \<Rightarrow> (t, (s1, tr))),
      delay = (\<lambda>ms. logged (Delay ms) (delay h ms)),
      promise_race = (\<lambda>a b. logged (PromiseRace a b) (promise_race h a b))\<rparr>"

text \<open>Whether a result is a failure with an error of the given name.\<close>

fun fails_with :: "error_name \<Rightarrow> js_error + 'a \<Rightarrow> bool" where
  "fails_with n (Inl err) = (name err = n)"
| "fails_with n (Inr v) = False"

section \<open>The chain of attempts of \<^verbatim>\<open>wait\<close>\<close>

text \<open>
  Three notions for speaking about a chain of attempts. \<open>attempt_options\<close> is the
  options object an attempt passes to the tab manager when the clock reads \<open>t\<close>, and
  \<open>execute_attempt\<close> is the body of the \<^verbatim>\<open>try\<close> block of one attempt: the clock is read
  and the script is executed once. \<open>state_before h idv code arg waitMetadata n s j\<close> is
  the state in which attempt \<open>n + j\<close> starts, when attempt \<open>n\<close> starts in state \<open>s\<close>
  and each attempt up to there is followed by the next. An attempt is \<open>aborted\<close> when it
  fails with the error that \<^verbatim>\<open>attempt\<close> answers with a retry.
\<close>

definition attempt_options :: "jsval \<Rightarrow> jsval \<Rightarrow> nat \<Rightarrow> nat \<Rightarrow> jsval" where
  "attempt_options arg waitMetadata attemptNumber t =
     JObj [(''arg'', arg),
           (''metadata'', object_assign
              (JObj [(''attemptNumber'', JNum (of_nat attemptNumber)),
                     (''runBeginTime'', JNum (of_nat t))])
              waitMetadata)]"

definition execute_attempt ::
  "'s host \<Rightarrow> jsval \<Rightarrow> jsval \<Rightarrow> jsval \<Rightarrow> jsval \<Rightarrow> nat \<Rightarrow> 's \<Rightarrow> (js_error + outcome) \<times> 's"
where
  "execute_attempt h idv code arg waitMetadata attemptNumber s =
     (case date_now h s of (t, s1) \<Rightarrow>
        tm_runContentScript h idv code (attempt_options arg waitMetadata attemptNumber t) s1)"

fun state_before ::
  "'s host \<Rightarrow> jsval \<Rightarrow> jsval \<Rightarrow> jsval \<Rightarrow> jsval \<Rightarrow> nat \<Rightarrow> 's \<Rightarrow> nat \<Rightarrow> 's"
where
  "state_before h idv code arg waitMetadata n s 0 = s"
| "state_before h idv code arg waitMetadata n s (Suc j) =
     state_before h idv code arg waitMetadata (Suc n)
       (snd (execute_attempt h idv code arg waitMetadata n s)) j"

definition aborted :: "(js_error + outcome) \<times> 's \<Rightarrow> bool" where
  "aborted r = fails_with CONTENT_SCRIPT_ABORTED_ERROR (fst r)"

section \<open>A scripted environment\<close>

text \<open>
  A concrete environment for running the handlers: the live tabs, a clock in
  milliseconds, the duration and the result of each script execution to come, and the
  time at which new content appears (if ever). The observation is signal \<open>0\<close>, a timer
  is signal \<open>1\<close> and completes at its deadline; a race is won by the first entry when it
  completes strictly before the second.
\<close>

record script_state =
  tabs :: "jsval list"
  clock :: nat
  runs :: "(nat \<times> (js_error + outcome)) list"
  new_content_at :: "nat option"
  timer_at :: "nat option"

definition completes_at :: "script_state \<Rightarrow> signal \<Rightarrow> nat option" where
  "completes_at s x = (if x = 0 then new_content_at s else timer_at s)"

definition scripted_race :: "signal \<Rightarrow> signal \<Rightarrow> script_state \<Rightarrow> settled \<times> script_state" where
  "scripted_race a b s =
     (case completes_at s a of
        None \<Rightarrow>
          (case completes_at s b of
             None \<Rightarrow> (SecondSettled, s)
           | Some tb \<Rightarrow> (SecondSettled, s\<lparr>clock := max (clock s) tb\<rparr>))
      | Some ta \<Rightarrow>
          (case completes_at s b of
             None \<Rightarrow> (FirstSettled, s\<lparr>clock := max (clock s) ta\<rparr>)
           | Some tb \<Rightarrow>
               if ta < tb then (FirstSettled, s\<lparr>clock := max (clock s) ta\<rparr>)
               else (SecondSettled, s\<lparr>clock := max (clock s) tb\<rparr>)))"

definition scripted_run :: "script_state \<Rightarrow> (js_error + outcome) \<times> script_state" where
  "scripted_run s =
     (case runs s of
        [] \<Rightarrow> (Inl \<lparr>name = OtherError ''NothingScripted'', message = []\<rparr>, s)
      | (d, r) # rest \<Rightarrow> (r, s\<lparr>clock := clock s + d, runs := rest\<rparr>))"

definition scripted :: "script_state host" where
  "scripted =
     \<lparr>tm_createTab = (\<lambda>s. (Inr \<lparr>tab_id = JStr ''fresh''\<rparr>, s\<lparr>tabs := JStr ''fresh'' # tabs s\<rparr>)),
      tm_hasTab = (\<lambda>idv s. (idv \<in> set (tabs s), s)),
      tm_navigateTab = (\<lambda>idv url s. (Inr (JObj [(''navigated'', url)]), s\<lparr>clock := clock s + 1\<rparr>)),
      tm_runContentScript = (\<lambda>idv code opts. scripted_run),
      tm_waitForNewContent = (\<lambda>idv s. (0, s)),
      date_now = (\<lambda>s. (clock s, s)),
      delay = (\<lambda>ms s. (1, s\<lparr>timer_at := Some (clock s + nat \<lfloor>ms\<rfloor>)\<rparr>)),
      promise_race = scripted_race\<rparr>"

text \<open>
  A page whose script runs for ten seconds, longer than the five seconds a caller may
  allow for the new page, with new content appearing at the given time.
\<close>

definition slow_script :: script_state where
  "slow_script =
     \<lparr>tabs = [JStr ''t1''], clock = 1000,
      runs = [(10000, Inr (Resolve (JStr ''clicked'')))],
      new_content_at = Some 17000, timer_at = None\<rparr>"

text \<open>
  Further pages: one that navigates away while its script runs, with new content two
  seconds later; one whose script fails with an error of its own; one whose script
  reports a rejection; and, for \<^verbatim>\<open>wait\<close>, one that navigates three times before the
  script completes, one that navigates once and then fails, and a tab manager for which
  every execution is aborted.
\<close>

definition navigating :: script_state where
  "navigating =
     \<lparr>tabs = [JStr ''t1''], clock = 1000,
      runs = [(10000, Inl \<lparr>name = AbortedExecution, message = []\<rparr>)],
      new_content_at = Some 12000, timer_at = None\<rparr>"

definition crashing :: script_state where
  "crashing =
     \<lparr>tabs = [JStr ''t1''], clock = 1000,
      runs = [(10, Inl \<lparr>name = OtherError ''TypeError'', message = [Lit ''x is undefined'']\<rparr>)],
      new_content_at = Some 12000, timer_at = None\<rparr>"

definition rejecting :: "jsval \<Rightarrow> nat option \<Rightarrow> script_state" where
  "rejecting v content =
     \<lparr>tabs = [JStr ''t1''], clock = 1000,
      runs = [(10000, Inr (Reject v))],
      new_content_at = content, timer_at = None\<rparr>"

definition three_aborts :: script_state where
  "three_aborts =
     \<lparr>tabs = [JStr ''t1''], clock = 1000,
      runs = [(10, Inl \<lparr>name = AbortedExecution, message = []\<rparr>),
              (10, Inl \<lparr>name = AbortedExecution, message = []\<rparr>),
              (10, Inl \<lparr>name = AbortedExecution, message = []\<rparr>),
              (20, Inr (Resolve (JStr ''ready'')))],
      new_content_at = None, timer_at = None\<rparr>"

definition abort_then_crash :: script_state where
  "abort_then_crash =
     \<lparr>tabs = [JStr ''t1''], clock = 1000,
      runs = [(10, Inl \<lparr>name = AbortedExecution, message = []\<rparr>),
              (10, Inl \<lparr>name = OtherError ''TypeError'', message = [Lit ''x is undefined'']\<rparr>),
              (10, Inr (Resolve (JStr ''never reached'')))],
      new_content_at = None, timer_at = None\<rparr>"

definition always_aborting :: "script_state host" where
  "always_aborting =
     scripted\<lparr>tm_runContentScript :=
       (\<lambda>idv code opts s. (Inl \<lparr>name = AbortedExecution, message = []\<rparr>, s\<lparr>clock := clock s + 10\<rparr>))\<rparr>"

text \<open>
  The spec's words for the URL check: the value is a string that starts with
  \<^verbatim>\<open>http://\<close> or \<^verbatim>\<open>https://\<close>.
\<close>

definition absolute_http_url :: "jsval \<Rightarrow> bool" where
  "absolute_http_url v =
     (case v of JStr u \<Rightarrow> take 7 u = ''http://'' \<or> take 8 u = ''https://'' | _ \<Rightarrow> False)"

text \<open>Whether a text occurs in another.\<close>

fun occurs_in :: "string \<Rightarrow> string \<Rightarrow> bool" where
  "occurs_in w [] = (w = [])"
| "occurs_in w (x # xs) = (take (length w) (x # xs) = w \<or> occurs_in w xs)"

section \<open>Properties of the instrumented host and of the pattern\<close>

lemmas scripted_simps =
  scripted_def scripted_run_def scripted_race_def completes_at_def

lemma instrument_simps:
  "tm_createTab (instrument h) (s, tr) = (fst (tm_createTab h s), (snd (tm_createTab h s), tr @ [CreateTab]))"
  "tm_hasTab (instrument h) idv (s, tr) = (fst (tm_hasTab h idv s), (snd (tm_hasTab h idv s), tr @ [HasTab idv]))"
  "tm_navigateTab (instrument h) idv url (s, tr) =
     (fst (tm_navigateTab h idv url s), (snd (tm_navigateTab h idv url s), tr @ [NavigateTab idv url]))"
  "tm_runContentScript (instrument h) idv code opts (s, tr) =
     (fst (tm_runContentScript h idv code opts s),
      (snd (tm_runContentScript h idv code opts s), tr @ [RunContentScript idv code opts]))"
  "tm_waitForNewContent (instrument h) idv (s, tr) =
     (fst (tm_waitForNewContent h idv s), (snd (tm_waitForNewContent h idv s), tr @ [WaitForNewContent idv]))"
  "date_now (instrument h) (s, tr) = (fst (date_now h s), (snd (date_now h s), tr))"
  "delay (instrument h) ms (s, tr) = (fst (delay h ms s), (snd (delay h ms s), tr @ [Delay ms]))"
  "promise_race (instrument h) a b (s, tr) =
     (fst (promise_race h a b s), (snd (promise_race h a b s), tr @ [PromiseRace a b]))"
  by (simp_all add: instrument_def logged_def split: prod.splits)

lemma match_here_chars:
  "match_here (map Chr p @ r) s \<longleftrightarrow> (\<exists>rest. s = p @ rest \<and> match_here r rest)"
proof (induction p arbitrary: s)
  case Nil
  then show ?case by simp
next
  case (Cons c p)
  then show ?case by (cases s) auto
qed

lemma match_here_opt:
  "match_here (Opt c # r) s \<longleftrightarrow> (\<exists>rest. s = c # rest \<and> match_here r rest) \<or> match_here r s"
  by (cases s) auto

lemma allowed_url_iff:
  "regexp_test ALLOWED_URL_REGEXP u \<longleftrightarrow> (\<exists>rest. u = ''http://'' @ rest \<or> u = ''https://'' @ rest)"
proof -
  have tail: "match_here (map Chr ''://'') s \<longleftrightarrow> (\<exists>rest. s = ''://'' @ rest)" for s
    using match_here_chars [of "''://''" "[]" s] by simp
  have "regexp_test ALLOWED_URL_REGEXP u \<longleftrightarrow>
        (\<exists>r1. u = ''http'' @ r1 \<and> match_here (Opt CHR ''s'' # map Chr ''://'') r1)"
    unfolding regexp_test_def ALLOWED_URL_REGEXP_def
    using match_here_chars [of "''http''" "Opt CHR ''s'' # map Chr ''://''" u] by simp
  also have "\<dots> \<longleftrightarrow> (\<exists>r1. u = ''http'' @ r1 \<and>
        ((\<exists>r2. r1 = CHR ''s'' # r2 \<and> (\<exists>rest. r2 = ''://'' @ rest)) \<or> (\<exists>rest. r1 = ''://'' @ rest)))"
    unfolding match_here_opt tail ..
  also have "\<dots> \<longleftrightarrow> (\<exists>rest. u = ''http://'' @ rest \<or> u = ''https://'' @ rest)"
    by auto
  finally show ?thesis .
qed

lemma attempt_retry:
  assumes "aborted (execute_attempt h idv code arg wm n s)"
  shows "attempt h idv code arg wm n s =
         attempt h idv code arg wm (Suc n) (snd (execute_attempt h idv code arg wm n s))"
  using assms
  by (subst attempt.simps)
     (auto simp: aborted_def execute_attempt_def attempt_options_def split: prod.splits sum.splits)

lemma attempt_return:
  assumes "\<not> aborted (execute_attempt h idv code arg wm n s)"
  shows "attempt h idv code arg wm n s = Some (execute_attempt h idv code arg wm n s)"
  using assms
  by (subst attempt.simps)
     (auto simp: aborted_def execute_attempt_def attempt_options_def split: prod.splits sum.splits)

lemma attempt_skip_aborts:
  assumes "\<forall>j<k. aborted (execute_attempt h idv code arg wm (n + j) (state_before h idv code arg wm n s j))"
  shows "attempt h idv code arg wm n s =
         attempt h idv code arg wm (n + k) (state_before h idv code arg wm n s k)"
  using assms
proof (induction k arbitrary: n s)
  case 0
  then show ?case by simp
next
  case (Suc k)
  from Suc.prems have first: "aborted (execute_attempt h idv code arg wm n s)"
    by (auto dest: spec [of _ 0])
  have rest: "\<forall>j<k. aborted (execute_attempt h idv code arg wm (Suc n + j)
      (state_before h idv code arg wm (Suc n) (snd (execute_attempt h idv code arg wm n s)) j))"
  proof (intro allI impI)
    fix j assume "j < k"
    then have "Suc j < Suc k" by simp
    with Suc.prems show "aborted (execute_attempt h idv code arg wm (Suc n + j)
      (state_before h idv code arg wm (Suc n) (snd (execute_attempt h idv code arg wm n s)) j))"
      by (auto dest!: spec [of _ "Suc j"])
  qed
  show ?case
    using attempt_retry [OF first] Suc.IH [OF rest] by simp
qed

lemma attempt_returns_stops:
  assumes returns: "attempt h idv code arg wm n s = Some y"
  shows "\<exists>j. \<not> aborted (execute_attempt h idv code arg wm (n + j) (state_before h idv code arg wm n s j))"
proof (rule attempt.raw_induct
    [where P = "\<lambda>h idv code arg wm n s y.
       \<exists>j. \<not> aborted (execute_attempt h idv code arg wm (n + j) (state_before h idv code arg wm n s j))",
     OF _ returns])
  fix attempt' :: "'a host \<Rightarrow> jsval \<Rightarrow> jsval \<Rightarrow> jsval \<Rightarrow> jsval \<Rightarrow> nat \<Rightarrow> 'a \<Rightarrow> ((js_error + outcome) \<times> 'a) option"
  fix h idv code arg wm n s y
  assume IH: "\<And>h idv code arg wm n s y. attempt' h idv code arg wm n s = Some y \<Longrightarrow>
    \<exists>j. \<not> aborted (execute_attempt h idv code arg wm (n + j) (state_before h idv code arg wm n s j))"
  assume body: "(case date_now h s of (t, s1) \<Rightarrow>
        let metadata = object_assign
              (JObj [(''attemptNumber'', JNum (of_nat n)),
                     (''runBeginTime'', JNum (of_nat t))])
              wm
        in (case tm_runContentScript h idv code
                   (JObj [(''arg'', arg), (''metadata'', metadata)]) s1 of
              (Inr out, s2) \<Rightarrow> Some (Inr out, s2)
            | (Inl err, s2) \<Rightarrow>
                if name err = CONTENT_SCRIPT_ABORTED_ERROR
                then attempt' h idv code arg wm (n + 1) s2
                else Some (Inl err, s2))) = Some y"
  show "\<exists>j. \<not> aborted (execute_attempt h idv code arg wm (n + j) (state_before h idv code arg wm n s j))"
  proof (cases "aborted (execute_attempt h idv code arg wm n s)")
    case False
    then show ?thesis by (intro exI [of _ 0]) simp
  next
    case True
    then have "attempt' h idv code arg wm (n + 1) (snd (execute_attempt h idv code arg wm n s)) = Some y"
      using body
      by (auto simp: aborted_def execute_attempt_def attempt_options_def split: prod.splits sum.splits if_splits)
    from IH [OF this] obtain j where
      "\<not> aborted (execute_attempt h idv code arg wm (n + 1 + j)
          (state_before h idv code arg wm (n + 1) (snd (execute_attempt h idv code arg wm n s)) j))"
      by auto
    then show ?thesis by (intro exI [of _ "Suc j"]) simp
  qed
qed

lemma attempt_never_returns:
  assumes "\<forall>j. aborted (execute_attempt h idv code arg wm (n + j) (state_before h idv code arg wm n s j))"
  shows "attempt h idv code arg wm n s = None"
proof (cases "attempt h idv code arg wm n s")
  case None
  then show ?thesis .
next
  case (Some y)
  from attempt_returns_stops [OF this] assms show ?thesis by blast
qed

lemma take_is_prefix: "take (length p) u = p \<longleftrightarrow> (\<exists>rest. u = p @ rest)"
  by (metis append_eq_conv_conj append_take_drop_id)

lemma allowed_url_take:
  "regexp_test ALLOWED_URL_REGEXP u \<longleftrightarrow> take 7 u = ''http://'' \<or> take 8 u = ''https://''"
proof -
  have len: "length ''http://'' = 7" "length ''https://'' = 8"
    by simp_all
  show ?thesis
    using take_is_prefix [of "''http://''" u] take_is_prefix [of "''https://''" u]
    unfolding len allowed_url_iff ex_disj_distrib by simp
qed

lemma invalid_id_instrument:
  "invalid_id (instrument h) idv (s, tr) =
     (if typeof idv \<noteq> ''string'' then (True, (s, tr))
      else (\<not> fst (tm_hasTab h idv s), (snd (tm_hasTab h idv s), tr @ [HasTab idv])))"
  by (simp add: invalid_id_def instrument_simps)

lemma race_new_content_instrument:
  assumes "delay h timeoutMs s = (timer, s1)" and "promise_race h p timer s1 = (w, s2)"
  shows "race_new_content (instrument h) p timeoutMs (s, tr) =
     ((case w of
         FirstSettled \<Rightarrow> Inr (Reject JNull)
       | SecondSettled \<Rightarrow> Inl (newPageWaitTimeoutError
           [Lit ''Waiting for a new page timed out after '',
            Subst (JNum (timeoutMs / 1000)),
            Lit '' seconds''])),
      (s2, tr @ [Delay timeoutMs, PromiseRace p timer]))"
  using assms by (cases w) (simp_all add: race_new_content_def instrument_simps)

lemma waitForNewPage_valid:
  fixes arg :: jsval and tr :: "call list"
  assumes "typeof idv = ''string''" and "typeof code = ''string''"
    and "tm_hasTab h idv s = (True, s_live)"
    and "date_now h s_live = (t, s_now)"
    and "tm_waitForNewContent h idv s_now = (p, s_obs)"
    and "tm_runContentScript h idv code
           (JObj [(''arg'', arg), (''metadata'', JObj [(''runBeginTime'', JNum (of_nat t))])]) s_obs = (r, s_ran)"
  defines "after_run \<equiv> (s_ran, tr @ [HasTab idv, WaitForNewContent idv,
      RunContentScript idv code
        (JObj [(''arg'', arg), (''metadata'', JObj [(''runBeginTime'', JNum (of_nat t))])])])"
  shows "waitForNewPage (instrument h) idv code arg timeoutMs (s, tr) =
     (case r of
        Inr out \<Rightarrow>
          if truthy (reject_field out) then (Inr (Reject (reject_field out)), after_run)
          else race_new_content (instrument h) p timeoutMs after_run
      | Inl err \<Rightarrow>
          if name err \<noteq> CONTENT_SCRIPT_ABORTED_ERROR then (Inl err, after_run)
          else race_new_content (instrument h) p timeoutMs after_run)"
  using assms(1-6)
  by (cases r) (simp_all add: waitForNewPage_def invalid_id_instrument instrument_simps after_run_def)

lemma race_new_content_no_resolve:
  "fst (race_new_content h p timeoutMs s) \<noteq> Inr (Resolve x)"
  by (simp add: race_new_content_def split: prod.splits settled.splits)

lemma waitForNewPage_no_resolve:
  "fst (waitForNewPage h idv code arg timeoutMs s) \<noteq> Inr (Resolve x)"
  by (simp add: waitForNewPage_def race_new_content_no_resolve Let_def
        split: prod.splits sum.splits)

section \<open>The attempts of \<^verbatim>\<open>wait\<close>\<close>

lemma attempt_options_wait:
  "attempt_options arg (JObj [(''waitBeginTime'', w)]) n t =
     JObj [(''arg'', arg),
           (''metadata'', JObj [(''attemptNumber'', JNum (of_nat n)),
                                (''runBeginTime'', JNum (of_nat t)),
                                (''waitBeginTime'', w)])]"
  by (simp add: attempt_options_def object_assign_def)

lemma execute_attempt_instrument:
  "execute_attempt (instrument h) idv code arg wm n (s, tr) =
     (fst (execute_attempt h idv code arg wm n s),
      (snd (execute_attempt h idv code arg wm n s),
       tr @ [RunContentScript idv code (attempt_options arg wm n (fst (date_now h s)))]))"
  by (simp add: execute_attempt_def instrument_simps split: prod.splits)

lemma state_before_instrument:
  "state_before (instrument h) idv code arg wm n (s, tr) j =
     (state_before h idv code arg wm n s j,
      tr @ map (\<lambda>i. RunContentScript idv code
                  (attempt_options arg wm (n + i)
                     (fst (date_now h (state_before h idv code arg wm n s i))))) [0..<j])"
proof (induction j arbitrary: n s tr)
  case 0
  then show ?case by simp
next
  case (Suc j)
  show ?case
    by (simp only: state_before.simps execute_attempt_instrument snd_conv Suc.IH map_upt_Suc)
       simp
qed

lemma aborted_instrument:
  "aborted (execute_attempt (instrument h) idv code arg wm n (s, tr)) =
   aborted (execute_attempt h idv code arg wm n s)"
  by (simp add: aborted_def execute_attempt_instrument)

lemma wait_valid:
  assumes "typeof idv = ''string''" and "typeof code = ''string''"
    and "tm_hasTab h idv s = (True, s_live)"
    and "date_now h s_live = (t_begin, s_now)"
  shows "wait (instrument h) idv code arg (s, tr) =
         attempt (instrument h) idv code arg (JObj [(''waitBeginTime'', JNum (of_nat t_begin))]) 0
           (s_now, tr @ [HasTab idv])"
  using assms by (simp add: wait_def invalid_id_instrument instrument_simps)

lemma wait_chain:
  fixes h :: "'s host" and arg :: jsval
  assumes "typeof idv = ''string''" and "typeof code = ''string''"
    and "tm_hasTab h idv s = (True, s_live)"
    and "date_now h s_live = (t_begin, s_now)"
  defines "wm \<equiv> JObj [(''waitBeginTime'', JNum (of_nat t_begin))]"
  defines "before \<equiv> state_before h idv code arg wm 0 s_now"
  defines "result \<equiv> (\<lambda>j. execute_attempt h idv code arg wm j (before j))"
  defines "made \<equiv> (\<lambda>j. RunContentScript idv code
      (JObj [(''arg'', arg),
             (''metadata'', JObj [(''attemptNumber'', JNum (of_nat j)),
                                  (''runBeginTime'', JNum (of_nat (fst (date_now h (before j))))),
                                  (''waitBeginTime'', JNum (of_nat t_begin))])]))"
  shows "(\<forall>k. (\<forall>j<k. aborted (result j)) \<longrightarrow>
            wait (instrument h) idv code arg (s, tr) =
              attempt (instrument h) idv code arg wm k (before k, tr @ HasTab idv # map made [0..<k]))
       \<and> (\<forall>k. (\<forall>j<k. aborted (result j)) \<and> \<not> aborted (result k) \<longrightarrow>
            wait (instrument h) idv code arg (s, tr) =
              Some (fst (result k), (snd (result k), tr @ HasTab idv # map made [0..<Suc k])))
       \<and> ((\<forall>j. aborted (result j)) \<longrightarrow> wait (instrument h) idv code arg (s, tr) = None)"
proof -
  let ?H = "instrument h"
  let ?start = "(s_now, tr @ [HasTab idv])"
  have start: "wait ?H idv code arg (s, tr) = attempt ?H idv code arg wm 0 ?start"
    unfolding wm_def by (rule wait_valid [OF assms(1-4)])
  have made: "RunContentScript idv code (attempt_options arg wm j (fst (date_now h (before j)))) = made j" for j
    by (simp add: made_def wm_def attempt_options_wait)
  have at: "state_before ?H idv code arg wm 0 ?start k = (before k, tr @ HasTab idv # map made [0..<k])" for k
    by (simp add: state_before_instrument before_def [symmetric] made)
  have ab: "aborted (execute_attempt ?H idv code arg wm j (state_before ?H idv code arg wm 0 ?start j)) =
            aborted (result j)" for j
    by (simp add: state_before_instrument aborted_instrument result_def before_def)
  have skip: "wait ?H idv code arg (s, tr) =
      attempt ?H idv code arg wm k (before k, tr @ HasTab idv # map made [0..<k])"
    if "\<forall>j<k. aborted (result j)" for k
  proof -
    from that have "\<forall>j<k. aborted (execute_attempt ?H idv code arg wm (0 + j)
        (state_before ?H idv code arg wm 0 ?start j))"
      by (simp add: ab)
    from attempt_skip_aborts [OF this] show ?thesis
      by (simp add: start at)
  qed
  have stop: "wait ?H idv code arg (s, tr) =
      Some (fst (result k), (snd (result k), tr @ HasTab idv # map made [0..<Suc k]))"
    if "\<forall>j<k. aborted (result j)" and "\<not> aborted (result k)" for k
  proof -
    let ?st = "(before k, tr @ HasTab idv # map made [0..<k])"
    from that(2) have "\<not> aborted (execute_attempt ?H idv code arg wm k ?st)"
      by (simp add: aborted_instrument result_def)
    from attempt_return [OF this] show ?thesis
      by (simp add: skip [OF that(1)] execute_attempt_instrument result_def made)
  qed
  have never: "wait ?H idv code arg (s, tr) = None" if "\<forall>j. aborted (result j)"
  proof -
    from that have "\<forall>j. aborted (execute_attempt ?H idv code arg wm (0 + j)
        (state_before ?H idv code arg wm 0 ?start j))"
      by (simp add: ab)
    from attempt_never_returns [OF this] show ?thesis
      by (simp add: start)
  qed
  from skip stop never show ?thesis by blast
qed

section \<open>Properties of \<^verbatim>\<open>wait\<close>\<close>

text \<open>
  C1. In a call to \<^verbatim>\<open>wait\<close> with a valid id and code, \<open>t_begin\<close> is the clock value
  read once before the first attempt, \<open>result j\<close> is what the tab manager answers to
  attempt \<open>j\<close>, and \<open>made j\<close> is the call attempt \<open>j\<close> makes: its metadata holds
  \<open>attemptNumber = j\<close> and \<open>waitBeginTime = t_begin\<close>. On an instrumented host:
  after \<open>k\<close> aborted attempts the call continues as attempt number \<open>k\<close>, having made
  exactly the calls \<open>made 0\<close>, ..., \<open>made (k - 1)\<close>; when attempt \<open>k\<close> then succeeds,
  the call returns that attempt's outcome and the last call made is \<open>made k\<close>; and when
  every attempt is aborted the call never returns.
\<close>

theorem wait_retries_on_abort:
  fixes h :: "'s host" and arg :: jsval
  assumes "typeof idv = ''string''" and "typeof code = ''string''"
    and "tm_hasTab h idv s = (True, s_live)"
    and "date_now h s_live = (t_begin, s_now)"
  defines "wm \<equiv> JObj [(''waitBeginTime'', JNum (of_nat t_begin))]"
  defines "before \<equiv> state_before h idv code arg wm 0 s_now"
  defines "result \<equiv> (\<lambda>j. execute_attempt h idv code arg wm j (before j))"
  defines "made \<equiv> (\<lambda>j. RunContentScript idv code
      (JObj [(''arg'', arg),
             (''metadata'', JObj [(''attemptNumber'', JNum (of_nat j)),
                                  (''runBeginTime'', JNum (of_nat (fst (date_now h (before j))))),
                                  (''waitBeginTime'', JNum (of_nat t_begin))])]))"
  shows "(\<forall>k. (\<forall>j<k. aborted (result j)) \<longrightarrow>
            wait (instrument h) idv code arg (s, tr) =
              attempt (instrument h) idv code arg wm k (before k, tr @ HasTab idv # map made [0..<k]))
       \<and> (\<forall>k out. (\<forall>j<k. aborted (result j)) \<and> fst (result k) = Inr out \<longrightarrow>
            wait (instrument h) idv code arg (s, tr) =
              Some (Inr out, (snd (result k), tr @ HasTab idv # map made [0..<Suc k])))
       \<and> ((\<forall>j. aborted (result j)) \<longrightarrow> wait (instrument h) idv code arg (s, tr) = None)"
proof -
  note chain = wait_chain [OF assms(1-4), of arg tr, folded wm_def, folded before_def,
      folded made_def]
  note stops = chain [THEN conjunct2, THEN conjunct1, rule_format]
  have "wait (instrument h) idv code arg (s, tr) =
      Some (Inr out, (snd (result k), tr @ HasTab idv # map made [0..<Suc k]))"
    if "\<forall>j<k. aborted (result j)" and "fst (result k) = Inr out" for k out
    using stops [of k] that by (simp add: result_def aborted_def)
  with chain show ?thesis unfolding result_def by blast
qed

text \<open>
  C1, at a concrete input: three aborts and then a success give four executions numbered
  0 to 3, all with the same \<open>waitBeginTime\<close>, and the outcome of the last one; with a tab
  manager that aborts every execution the call does not return.
\<close>

theorem wait_retries_on_abort_witness:
  "wait (instrument scripted) (JStr ''t1'') (JStr ''ready()'') JNull (three_aborts, []) =
     Some (Inr (Resolve (JStr ''ready'')),
           (three_aborts\<lparr>clock := 1050, runs := []\<rparr>,
            [HasTab (JStr ''t1''),
             RunContentScript (JStr ''t1'') (JStr ''ready()'')
               (JObj [(''arg'', JNull),
                      (''metadata'', JObj [(''attemptNumber'', JNum 0), (''runBeginTime'', JNum 1000),
                                           (''waitBeginTime'', JNum 1000)])]),
             RunContentScript (JStr ''t1'') (JStr ''ready()'')
               (JObj [(''arg'', JNull),
                      (''metadata'', JObj [(''attemptNumber'', JNum 1), (''runBeginTime'', JNum 1010),
                                           (''waitBeginTime'', JNum 1000)])]),
             RunContentScript (JStr ''t1'') (JStr ''ready()'')
               (JObj [(''arg'', JNull),
                      (''metadata'', JObj [(''attemptNumber'', JNum 2), (''runBeginTime'', JNum 1020),
                                           (''waitBeginTime'', JNum 1000)])]),
             RunContentScript (JStr ''t1'') (JStr ''ready()'')
               (JObj [(''arg'', JNull),
                      (''metadata'', JObj [(''attemptNumber'', JNum 3), (''runBeginTime'', JNum 1030),
                                           (''waitBeginTime'', JNum 1000)])])]))
   \<and> wait (instrument always_aborting) (JStr ''t1'') (JStr ''ready()'') JNull (three_aborts, []) = None"
proof -
  note finite = wait_retries_on_abort
    [where h = scripted and idv = "JStr ''t1''" and code = "JStr ''ready()''" and arg = JNull
       and s = three_aborts and s_live = three_aborts and s_now = three_aborts
       and t_begin = 1000 and tr = "[]",
     THEN conjunct2, THEN conjunct1, rule_format,
     of "Suc (Suc (Suc 0))" "Resolve (JStr ''ready'')"]
  note endless = wait_retries_on_abort
    [where h = always_aborting and idv = "JStr ''t1''" and code = "JStr ''ready()''" and arg = JNull
       and s = three_aborts and s_live = three_aborts and s_now = three_aborts
       and t_begin = 1000 and tr = "[]",
     THEN conjunct2, THEN conjunct2, rule_format]
  have a: "wait (instrument scripted) (JStr ''t1'') (JStr ''ready()'') JNull (three_aborts, []) =
     Some (Inr (Resolve (JStr ''ready'')),
           (three_aborts\<lparr>clock := 1050, runs := []\<rparr>,
            [HasTab (JStr ''t1''),
             RunContentScript (JStr ''t1'') (JStr ''ready()'')
               (JObj [(''arg'', JNull),
                      (''metadata'', JObj [(''attemptNumber'', JNum 0), (''runBeginTime'', JNum 1000),
                                           (''waitBeginTime'', JNum 1000)])]),
             RunContentScript (JStr ''t1'') (JStr ''ready()'')
               (JObj [(''arg'', JNull),
                      (''metadata'', JObj [(''attemptNumber'', JNum 1), (''runBeginTime'', JNum 1010),
                                           (''waitBeginTime'', JNum 1000)])]),
             RunContentScript (JStr ''t1'') (JStr ''ready()'')
               (JObj [(''arg'', JNull),
                      (''metadata'', JObj [(''attemptNumber'', JNum 2), (''runBeginTime'', JNum 1020),
                                           (''waitBeginTime'', JNum 1000)])]),
             RunContentScript (JStr ''t1'') (JStr ''ready()'')
               (JObj [(''arg'', JNull),
                      (''metadata'', JObj [(''attemptNumber'', JNum 3), (''runBeginTime'', JNum 1030),
                                           (''waitBeginTime'', JNum 1000)])])]))"
    using finite
    by (simp add: scripted_simps three_aborts_def execute_attempt_def aborted_def
          CONTENT_SCRIPT_ABORTED_ERROR_def All_less_Suc)
  have b: "wait (instrument always_aborting) (JStr ''t1'') (JStr ''ready()'') JNull (three_aborts, []) = None"
    by (rule endless)
       (simp_all add: always_aborting_def scripted_simps three_aborts_def execute_attempt_def aborted_def
          CONTENT_SCRIPT_ABORTED_ERROR_def)
  from a b show ?thesis by (rule conjI)
qed

text \<open>
  C6. In a call to \<^verbatim>\<open>wait\<close> with a valid id and code, when attempts \<open>0\<close> to \<open>k - 1\<close>
  are aborted and attempt \<open>k\<close> fails with an error whose name is not the abort's, the
  call fails with that same error, in the state that attempt left, and the calls made are
  exactly the \<open>k + 1\<close> executions: no further attempt follows.
\<close>

theorem wait_propagates_other_error:
  fixes h :: "'s host" and arg :: jsval
  assumes "typeof idv = ''string''" and "typeof code = ''string''"
    and "tm_hasTab h idv s = (True, s_live)"
    and "date_now h s_live = (t_begin, s_now)"
  defines "wm \<equiv> JObj [(''waitBeginTime'', JNum (of_nat t_begin))]"
  defines "before \<equiv> state_before h idv code arg wm 0 s_now"
  defines "result \<equiv> (\<lambda>j. execute_attempt h idv code arg wm j (before j))"
  defines "made \<equiv> (\<lambda>j. RunContentScript idv code
      (JObj [(''arg'', arg),
             (''metadata'', JObj [(''attemptNumber'', JNum (of_nat j)),
                                  (''runBeginTime'', JNum (of_nat (fst (date_now h (before j))))),
                                  (''waitBeginTime'', JNum (of_nat t_begin))])]))"
  assumes "\<forall>j<k. aborted (result j)"
    and "fst (result k) = Inl err" and "name err \<noteq> CONTENT_SCRIPT_ABORTED_ERROR"
  shows "wait (instrument h) idv code arg (s, tr) =
           Some (Inl err, (snd (result k), tr @ HasTab idv # map made [0..<Suc k]))"
proof -
  note chain = wait_chain [OF assms(1-4), of arg tr, folded wm_def, folded before_def,
      folded made_def]
  note stops = chain [THEN conjunct2, THEN conjunct1, rule_format]
  show ?thesis
    using stops [of k] assms(9-11) by (simp add: result_def aborted_def)
qed

text \<open>
  C6, at a concrete input: an abort, then a \<open>TypeError\<close>; the scripted third execution
  is never requested.
\<close>

theorem wait_propagates_other_error_witness:
  "wait (instrument scripted) (JStr ''t1'') (JStr ''ready()'') JNull (abort_then_crash, []) =
     Some (Inl \<lparr>name = OtherError ''TypeError'', message = [Lit ''x is undefined'']\<rparr>,
           (abort_then_crash\<lparr>clock := 1020, runs := [(10, Inr (Resolve (JStr ''never reached'')))]\<rparr>,
            [HasTab (JStr ''t1''),
             RunContentScript (JStr ''t1'') (JStr ''ready()'')
               (JObj [(''arg'', JNull),
                      (''metadata'', JObj [(''attemptNumber'', JNum 0), (''runBeginTime'', JNum 1000),
                                           (''waitBeginTime'', JNum 1000)])]),
             RunContentScript (JStr ''t1'') (JStr ''ready()'')
               (JObj [(''arg'', JNull),
                      (''metadata'', JObj [(''attemptNumber'', JNum 1), (''runBeginTime'', JNum 1010),
                                           (''waitBeginTime'', JNum 1000)])])]))"
  using wait_propagates_other_error
    [where h = scripted and idv = "JStr ''t1''" and code = "JStr ''ready()''" and arg = JNull
       and s = abort_then_crash and s_live = abort_then_crash and s_now = abort_then_crash
       and t_begin = 1000 and tr = "[]" and k = "Suc 0"
       and err = "\<lparr>name = OtherError ''TypeError'', message = [Lit ''x is undefined'']\<rparr>"]
  by (simp add: scripted_simps abort_then_crash_def execute_attempt_def aborted_def
        CONTENT_SCRIPT_ABORTED_ERROR_def)

section \<open>Properties of \<^verbatim>\<open>waitForNewPage\<close>\<close>

text \<open>
  C2. In a call to \<^verbatim>\<open>waitForNewPage\<close> with a valid id and code whose script execution
  completes without a truthy \<^verbatim>\<open>reject\<close> (a resolve outcome, a falsy reject, or the
  swallowed abort), the timer of \<open>timeoutMs\<close> milliseconds is created after the script
  execution has completed: the calls are, in this order, the liveness check, the
  observation, the script execution, \<^verbatim>\<open>delay(timeoutMs)\<close> and the race. When the timer
  completes first, the call fails with \<open>NewPageWaitTimeout\<close> and the message reports
  \<open>timeoutMs / 1000\<close> seconds.
\<close>

theorem waitForNewPage_timer_after_script:
  assumes "typeof idv = ''string''" and "typeof code = ''string''"
    and "tm_hasTab h idv s = (True, s_live)"
    and "date_now h s_live = (t, s_now)"
    and "tm_waitForNewContent h idv s_now = (p, s_obs)"
    and "tm_runContentScript h idv code
           (JObj [(''arg'', arg), (''metadata'', JObj [(''runBeginTime'', JNum (of_nat t))])]) s_obs = (r, s_ran)"
    and "case r of Inr out \<Rightarrow> \<not> truthy (reject_field out)
                 | Inl err \<Rightarrow> name err = CONTENT_SCRIPT_ABORTED_ERROR"
    and "delay h timeoutMs s_ran = (timer, s_timer)"
    and "promise_race h p timer s_timer = (w, s_end)"
  shows "snd (waitForNewPage (instrument h) idv code arg timeoutMs (s, tr)) =
           (s_end, tr @ [HasTab idv, WaitForNewContent idv,
                      RunContentScript idv code
                        (JObj [(''arg'', arg), (''metadata'', JObj [(''runBeginTime'', JNum (of_nat t))])]),
                      Delay timeoutMs, PromiseRace p timer])
       \<and> (w = SecondSettled \<longrightarrow>
            fst (waitForNewPage (instrument h) idv code arg timeoutMs (s, tr)) =
              Inl \<lparr>name = NewPageWaitTimeout,
                   message = [Lit ''Waiting for a new page timed out after '',
                              Subst (JNum (timeoutMs / 1000)),
                              Lit '' seconds'']\<rparr>)"
proof -
  have race: "race_new_content (instrument h) p timeoutMs
      (s_ran, tr @ [HasTab idv, WaitForNewContent idv,
                 RunContentScript idv code
                   (JObj [(''arg'', arg), (''metadata'', JObj [(''runBeginTime'', JNum (of_nat t))])])]) =
     ((case w of
         FirstSettled \<Rightarrow> Inr (Reject JNull)
       | SecondSettled \<Rightarrow> Inl (newPageWaitTimeoutError
           [Lit ''Waiting for a new page timed out after '',
            Subst (JNum (timeoutMs / 1000)),
            Lit '' seconds''])),
      (s_end, tr @ [HasTab idv, WaitForNewContent idv,
                 RunContentScript idv code
                   (JObj [(''arg'', arg), (''metadata'', JObj [(''runBeginTime'', JNum (of_nat t))])]),
                 Delay timeoutMs, PromiseRace p timer]))"
    using race_new_content_instrument [OF assms(8,9)] by simp
  show ?thesis
    using assms(1-7) race
    by (cases r)
       (simp_all add: waitForNewPage_def invalid_id_instrument instrument_simps
          newPageWaitTimeoutError_def)
qed

text \<open>
  C2, at a concrete input: the script runs from 1000 to 11000, the timer of 5000 ms is
  created then and completes at 16000, before the new content at 17000.
\<close>

theorem waitForNewPage_timer_after_script_witness:
  "waitForNewPage (instrument scripted) (JStr ''t1'') (JStr ''click()'') JNull 5000 (slow_script, []) =
     (Inl \<lparr>name = NewPageWaitTimeout,
           message = [Lit ''Waiting for a new page timed out after '', Subst (JNum 5), Lit '' seconds'']\<rparr>,
      (slow_script\<lparr>clock := 16000, runs := [], timer_at := Some 16000\<rparr>,
       [HasTab (JStr ''t1''), WaitForNewContent (JStr ''t1''),
        RunContentScript (JStr ''t1'') (JStr ''click()'')
          (JObj [(''arg'', JNull), (''metadata'', JObj [(''runBeginTime'', JNum 1000)])]),
        Delay 5000, PromiseRace 0 1]))"
proof -
  have "snd (waitForNewPage (instrument scripted) (JStr ''t1'') (JStr ''click()'') JNull 5000 (slow_script, [])) =
           (slow_script\<lparr>clock := 16000, runs := [], timer_at := Some 16000\<rparr>,
            [] @ [HasTab (JStr ''t1''), WaitForNewContent (JStr ''t1''),
                      RunContentScript (JStr ''t1'') (JStr ''click()'')
                        (JObj [(''arg'', JNull), (''metadata'', JObj [(''runBeginTime'', JNum (of_nat 1000))])]),
                      Delay 5000, PromiseRace 0 1])
       \<and> (SecondSettled = SecondSettled \<longrightarrow>
            fst (waitForNewPage (instrument scripted) (JStr ''t1'') (JStr ''click()'') JNull 5000 (slow_script, [])) =
              Inl \<lparr>name = NewPageWaitTimeout,
                   message = [Lit ''Waiting for a new page timed out after '',
                              Subst (JNum (5000 / 1000)),
                              Lit '' seconds'']\<rparr>)"
    by (rule waitForNewPage_timer_after_script
          [where h = scripted and s = slow_script and s_live = slow_script and s_now = slow_script
             and s_obs = slow_script and r = "Inr (Resolve (JStr ''clicked''))"
             and s_ran = "slow_script\<lparr>clock := 11000, runs := []\<rparr>"
             and s_timer = "slow_script\<lparr>clock := 11000, runs := [], timer_at := Some 16000\<rparr>"])
       (simp_all add: scripted_def scripted_run_def scripted_race_def completes_at_def slow_script_def)
  then show ?thesis by (simp add: prod_eq_iff)
qed

text \<open>
  C3, as amended. When the script execution succeeds with a \<^verbatim>\<open>{reject: value}\<close> outcome
  whose value is truthy, the call returns \<^verbatim>\<open>{reject: value}\<close> in the state the script
  left, and the only calls made are the liveness check, the observation and the script
  execution: no timer, no race. And no call to \<^verbatim>\<open>waitForNewPage\<close> at all, on any tab
  manager, with any arguments and whatever the script does, returns a resolve outcome.
\<close>

theorem waitForNewPage_truthy_reject:
  fixes h :: "'s host" and arg :: jsval
  shows "(typeof idv = ''string'' \<and> typeof code = ''string''
          \<and> tm_hasTab h idv s = (True, s_live)
          \<and> date_now h s_live = (t, s_now)
          \<and> tm_waitForNewContent h idv s_now = (p, s_obs)
          \<and> tm_runContentScript h idv code
                (JObj [(''arg'', arg), (''metadata'', JObj [(''runBeginTime'', JNum (of_nat t))])])
                s_obs = (Inr (Reject v), s_ran)
          \<and> truthy v \<longrightarrow>
          waitForNewPage (instrument h) idv code arg timeoutMs (s, tr) =
            (Inr (Reject v),
             (s_ran, tr @ [HasTab idv, WaitForNewContent idv,
                RunContentScript idv code
                  (JObj [(''arg'', arg), (''metadata'', JObj [(''runBeginTime'', JNum (of_nat t))])])])))
       \<and> (\<forall>(g :: 't host) any_id any_code any_arg any_timeout st x.
            fst (waitForNewPage g any_id any_code any_arg any_timeout st) \<noteq> Inr (Resolve x))"
proof (intro conjI impI allI)
  assume pre: "typeof idv = ''string'' \<and> typeof code = ''string''
          \<and> tm_hasTab h idv s = (True, s_live)
          \<and> date_now h s_live = (t, s_now)
          \<and> tm_waitForNewContent h idv s_now = (p, s_obs)
          \<and> tm_runContentScript h idv code
                (JObj [(''arg'', arg), (''metadata'', JObj [(''runBeginTime'', JNum (of_nat t))])])
                s_obs = (Inr (Reject v), s_ran)
          \<and> truthy v"
  then have run: "tm_runContentScript h idv code
      (JObj [(''arg'', arg), (''metadata'', JObj [(''runBeginTime'', JNum (of_nat t))])])
      s_obs = (Inr (Reject v), s_ran)"
    by simp
  from pre have "typeof idv = ''string''" and "typeof code = ''string''"
    and "tm_hasTab h idv s = (True, s_live)" and "date_now h s_live = (t, s_now)"
    and "tm_waitForNewContent h idv s_now = (p, s_obs)" and "truthy v"
    by simp_all
  from waitForNewPage_valid [OF this(1-5) run] \<open>truthy v\<close>
  show "waitForNewPage (instrument h) idv code arg timeoutMs (s, tr) =
            (Inr (Reject v),
             (s_ran, tr @ [HasTab idv, WaitForNewContent idv,
                RunContentScript idv code
                  (JObj [(''arg'', arg), (''metadata'', JObj [(''runBeginTime'', JNum (of_nat t))])])]))"
    by simp
next
  fix g :: "'t host" and any_id any_code any_arg any_timeout st x
  show "fst (waitForNewPage g any_id any_code any_arg any_timeout st) \<noteq> Inr (Resolve x)"
    by (rule waitForNewPage_no_resolve)
qed

text \<open>
  C3 as amended, at concrete inputs: a script that rejects with a non-empty string, on a
  page where new content never appears, is answered at once; and a script that resolves
  (ten seconds, new content later than the five seconds allowed) is not answered with
  its resolve outcome.
\<close>

theorem waitForNewPage_truthy_reject_witness:
  "waitForNewPage (instrument scripted) (JStr ''t1'') (JStr ''click()'') JNull 5000
     (rejecting (JStr ''no button'') None, []) =
   (Inr (Reject (JStr ''no button'')),
    (rejecting (JStr ''no button'') None\<lparr>clock := 11000, runs := []\<rparr>,
     [HasTab (JStr ''t1''), WaitForNewContent (JStr ''t1''),
      RunContentScript (JStr ''t1'') (JStr ''click()'')
        (JObj [(''arg'', JNull), (''metadata'', JObj [(''runBeginTime'', JNum 1000)])])]))
   \<and> tm_runContentScript scripted (JStr ''t1'') (JStr ''click()'')
       (JObj [(''arg'', JNull), (''metadata'', JObj [(''runBeginTime'', JNum 1000)])]) slow_script =
     (Inr (Resolve (JStr ''clicked'')), slow_script\<lparr>clock := 11000, runs := []\<rparr>)
   \<and> (\<forall>x. fst (waitForNewPage (instrument scripted) (JStr ''t1'') (JStr ''click()'') JNull 5000
                (slow_script, [])) \<noteq> Inr (Resolve x))"
proof -
  note returned = waitForNewPage_truthy_reject
    [where h = scripted and idv = "JStr ''t1''" and code = "JStr ''click()''" and arg = JNull
       and s = "rejecting (JStr ''no button'') None" and s_live = "rejecting (JStr ''no button'') None"
       and s_now = "rejecting (JStr ''no button'') None" and s_obs = "rejecting (JStr ''no button'') None"
       and t = 1000 and p = 0 and v = "JStr ''no button''"
       and s_ran = "rejecting (JStr ''no button'') None\<lparr>clock := 11000, runs := []\<rparr>"
       and tr = "[]" and timeoutMs = 5000, THEN conjunct1, rule_format]
  note no_resolve = waitForNewPage_truthy_reject
    [where 't = "script_state \<times> call list", THEN conjunct2, rule_format,
     of "instrument scripted" "JStr ''t1''" "JStr ''click()''" JNull 5000 "(slow_script, [])"]
  have a: "waitForNewPage (instrument scripted) (JStr ''t1'') (JStr ''click()'') JNull 5000
     (rejecting (JStr ''no button'') None, []) =
   (Inr (Reject (JStr ''no button'')),
    (rejecting (JStr ''no button'') None\<lparr>clock := 11000, runs := []\<rparr>,
     [HasTab (JStr ''t1''), WaitForNewContent (JStr ''t1''),
      RunContentScript (JStr ''t1'') (JStr ''click()'')
        (JObj [(''arg'', JNull), (''metadata'', JObj [(''runBeginTime'', JNum 1000)])])]))"
    using returned by (simp add: scripted_simps rejecting_def)
  have b: "tm_runContentScript scripted (JStr ''t1'') (JStr ''click()'')
       (JObj [(''arg'', JNull), (''metadata'', JObj [(''runBeginTime'', JNum 1000)])]) slow_script =
     (Inr (Resolve (JStr ''clicked'')), slow_script\<lparr>clock := 11000, runs := []\<rparr>)"
    by (simp add: scripted_simps slow_script_def)
  have c: "\<forall>x. fst (waitForNewPage (instrument scripted) (JStr ''t1'') (JStr ''click()'') JNull 5000
                (slow_script, [])) \<noteq> Inr (Resolve x)"
    using no_resolve by blast
  from a b c show ?thesis by blast
qed

text \<open>
  C3 as stated fails for a falsy value: the script execution succeeds with
  \<^verbatim>\<open>{reject: 0}\<close>, and the call does not return \<^verbatim>\<open>{reject: 0}\<close>; it creates the timer,
  waits, and fails with \<open>NewPageWaitTimeout\<close>.
\<close>

theorem waitForNewPage_falsy_reject_counterexample:
  "tm_runContentScript scripted (JStr ''t1'') (JStr ''click()'')
      (JObj [(''arg'', JNull), (''metadata'', JObj [(''runBeginTime'', JNum 1000)])])
      (rejecting (JNum 0) None) =
     (Inr (Reject (JNum 0)), rejecting (JNum 0) None\<lparr>clock := 11000, runs := []\<rparr>)
   \<and> waitForNewPage (instrument scripted) (JStr ''t1'') (JStr ''click()'') JNull 5000
       (rejecting (JNum 0) None, []) =
     (Inl \<lparr>name = NewPageWaitTimeout,
           message = [Lit ''Waiting for a new page timed out after '', Subst (JNum 5), Lit '' seconds'']\<rparr>,
      (rejecting (JNum 0) None\<lparr>clock := 16000, runs := [], timer_at := Some 16000\<rparr>,
       [HasTab (JStr ''t1''), WaitForNewContent (JStr ''t1''),
        RunContentScript (JStr ''t1'') (JStr ''click()'')
          (JObj [(''arg'', JNull), (''metadata'', JObj [(''runBeginTime'', JNum 1000)])]),
        Delay 5000, PromiseRace 0 1]))"
  by (simp add: waitForNewPage_def race_new_content_def invalid_id_instrument instrument_simps
        scripted_simps rejecting_def newPageWaitTimeoutError_def)

text \<open>
  C4. When the script execution fails with the abort error, the error is not
  propagated: the timer is created and the race decides, giving \<^verbatim>\<open>{reject: null}\<close> when
  the new content comes first (and the timeout error otherwise). When the script
  execution fails with any other error, the call fails with that error in the state the
  script left, with no timer and no race.
\<close>

theorem waitForNewPage_abort_swallowed:
  fixes arg :: jsval
  assumes "typeof idv = ''string''" and "typeof code = ''string''"
    and "tm_hasTab h idv s = (True, s_live)"
    and "date_now h s_live = (t, s_now)"
    and "tm_waitForNewContent h idv s_now = (p, s_obs)"
    and "tm_runContentScript h idv code
           (JObj [(''arg'', arg), (''metadata'', JObj [(''runBeginTime'', JNum (of_nat t))])]) s_obs =
         (Inl err, s_ran)"
    and "delay h timeoutMs s_ran = (timer, s_timer)"
    and "promise_race h p timer s_timer = (w, s_end)"
  defines "script \<equiv> RunContentScript idv code
      (JObj [(''arg'', arg), (''metadata'', JObj [(''runBeginTime'', JNum (of_nat t))])])"
  shows "(name err = CONTENT_SCRIPT_ABORTED_ERROR \<longrightarrow>
            waitForNewPage (instrument h) idv code arg timeoutMs (s, tr) =
              ((case w of
                  FirstSettled \<Rightarrow> Inr (Reject JNull)
                | SecondSettled \<Rightarrow>
                    Inl \<lparr>name = NewPageWaitTimeout,
                         message = [Lit ''Waiting for a new page timed out after '',
                                    Subst (JNum (timeoutMs / 1000)),
                                    Lit '' seconds'']\<rparr>),
               (s_end, tr @ [HasTab idv, WaitForNewContent idv, script,
                             Delay timeoutMs, PromiseRace p timer])))
       \<and> (name err \<noteq> CONTENT_SCRIPT_ABORTED_ERROR \<longrightarrow>
            waitForNewPage (instrument h) idv code arg timeoutMs (s, tr) =
              (Inl err, (s_ran, tr @ [HasTab idv, WaitForNewContent idv, script])))"
  using waitForNewPage_valid [OF assms(1-6)] race_new_content_instrument [OF assms(7,8)]
  by (cases w) (simp_all add: script_def newPageWaitTimeoutError_def)

text \<open>
  C4, at a concrete input: an abort after ten seconds with new content two seconds
  later, within the five seconds allowed; and a script failing with a \<open>TypeError\<close>.
\<close>

theorem waitForNewPage_abort_swallowed_witness:
  "waitForNewPage (instrument scripted) (JStr ''t1'') (JStr ''click()'') JNull 5000 (navigating, []) =
     (Inr (Reject JNull),
      (navigating\<lparr>clock := 12000, runs := [], timer_at := Some 16000\<rparr>,
       [HasTab (JStr ''t1''), WaitForNewContent (JStr ''t1''),
        RunContentScript (JStr ''t1'') (JStr ''click()'')
          (JObj [(''arg'', JNull), (''metadata'', JObj [(''runBeginTime'', JNum 1000)])]),
        Delay 5000, PromiseRace 0 1]))
   \<and> waitForNewPage (instrument scripted) (JStr ''t1'') (JStr ''click()'') JNull 5000 (crashing, []) =
     (Inl \<lparr>name = OtherError ''TypeError'', message = [Lit ''x is undefined'']\<rparr>,
      (crashing\<lparr>clock := 1010, runs := []\<rparr>,
       [HasTab (JStr ''t1''), WaitForNewContent (JStr ''t1''),
        RunContentScript (JStr ''t1'') (JStr ''click()'')
          (JObj [(''arg'', JNull), (''metadata'', JObj [(''runBeginTime'', JNum 1000)])])]))"
proof -
  note swallowed = waitForNewPage_abort_swallowed
    [where h = scripted and idv = "JStr ''t1''" and code = "JStr ''click()''" and arg = JNull
       and s = navigating and s_live = navigating and s_now = navigating and s_obs = navigating
       and t = 1000 and p = 0 and err = "\<lparr>name = AbortedExecution, message = []\<rparr>"
       and s_ran = "navigating\<lparr>clock := 11000, runs := []\<rparr>" and timer = 1
       and s_timer = "navigating\<lparr>clock := 11000, runs := [], timer_at := Some 16000\<rparr>"
       and w = FirstSettled
       and s_end = "navigating\<lparr>clock := 12000, runs := [], timer_at := Some 16000\<rparr>"
       and tr = "[]" and timeoutMs = 5000, THEN conjunct1, rule_format]
  note rethrown = waitForNewPage_abort_swallowed
    [where h = scripted and idv = "JStr ''t1''" and code = "JStr ''click()''" and arg = JNull
       and s = crashing and s_live = crashing and s_now = crashing and s_obs = crashing
       and t = 1000 and p = 0
       and err = "\<lparr>name = OtherError ''TypeError'', message = [Lit ''x is undefined'']\<rparr>"
       and s_ran = "crashing\<lparr>clock := 1010, runs := []\<rparr>" and timer = 1
       and s_timer = "crashing\<lparr>clock := 1010, runs := [], timer_at := Some 6010\<rparr>"
       and w = SecondSettled
       and s_end = "crashing\<lparr>clock := 6010, runs := [], timer_at := Some 6010\<rparr>"
       and tr = "[]" and timeoutMs = 5000, THEN conjunct2, rule_format]
  have a: "waitForNewPage (instrument scripted) (JStr ''t1'') (JStr ''click()'') JNull 5000 (navigating, []) =
     (Inr (Reject JNull),
      (navigating\<lparr>clock := 12000, runs := [], timer_at := Some 16000\<rparr>,
       [HasTab (JStr ''t1''), WaitForNewContent (JStr ''t1''),
        RunContentScript (JStr ''t1'') (JStr ''click()'')
          (JObj [(''arg'', JNull), (''metadata'', JObj [(''runBeginTime'', JNum 1000)])]),
        Delay 5000, PromiseRace 0 1]))"
    using swallowed
    by (simp add: scripted_simps navigating_def CONTENT_SCRIPT_ABORTED_ERROR_def)
  have b: "waitForNewPage (instrument scripted) (JStr ''t1'') (JStr ''click()'') JNull 5000 (crashing, []) =
     (Inl \<lparr>name = OtherError ''TypeError'', message = [Lit ''x is undefined'']\<rparr>,
      (crashing\<lparr>clock := 1010, runs := []\<rparr>,
       [HasTab (JStr ''t1''), WaitForNewContent (JStr ''t1''),
        RunContentScript (JStr ''t1'') (JStr ''click()'')
          (JObj [(''arg'', JNull), (''metadata'', JObj [(''runBeginTime'', JNum 1000)])])]))"
    using rethrown
    by (simp add: scripted_simps crashing_def CONTENT_SCRIPT_ABORTED_ERROR_def)
  from a b show ?thesis by (rule conjI)
qed

text \<open>
  C5. In every call to \<^verbatim>\<open>waitForNewPage\<close> that passes validation, the calls after
  the liveness check begin with \<^verbatim>\<open>waitForNewContent\<close> followed by
  \<^verbatim>\<open>runContentScript\<close>; whatever follows is the timer and the race, and the signal
  raced is the one that observation returned.
\<close>

theorem waitForNewPage_observes_before_script:
  fixes arg :: jsval
  assumes "typeof idv = ''string''" and "typeof code = ''string''"
    and "tm_hasTab h idv s = (True, s_live)"
    and "date_now h s_live = (t, s_now)"
    and "tm_waitForNewContent h idv s_now = (p, s_obs)"
  shows "\<exists>rest.
           snd (snd (waitForNewPage (instrument h) idv code arg timeoutMs (s, tr))) =
             tr @ [HasTab idv, WaitForNewContent idv,
                   RunContentScript idv code
                     (JObj [(''arg'', arg), (''metadata'', JObj [(''runBeginTime'', JNum (of_nat t))])])]
                @ rest
         \<and> (rest = [] \<or> (\<exists>timer. rest = [Delay timeoutMs, PromiseRace p timer]))"
proof -
  obtain r s_ran where run: "tm_runContentScript h idv code
      (JObj [(''arg'', arg), (''metadata'', JObj [(''runBeginTime'', JNum (of_nat t))])]) s_obs = (r, s_ran)"
    by (cases "tm_runContentScript h idv code
      (JObj [(''arg'', arg), (''metadata'', JObj [(''runBeginTime'', JNum (of_nat t))])]) s_obs")
  obtain timer s_timer where timer: "delay h timeoutMs s_ran = (timer, s_timer)"
    by (cases "delay h timeoutMs s_ran")
  obtain w s_end where race: "promise_race h p timer s_timer = (w, s_end)"
    by (cases "promise_race h p timer s_timer")
  show ?thesis
    using waitForNewPage_valid [OF assms(1-5) run] race_new_content_instrument [OF timer race]
    by (cases r) auto
qed

text \<open>
  C5, at a concrete input.
\<close>

theorem waitForNewPage_observes_before_script_witness:
  "\<exists>rest.
     snd (snd (waitForNewPage (instrument scripted) (JStr ''t1'') (JStr ''click()'') JNull 5000
                 (navigating, []))) =
       [] @ [HasTab (JStr ''t1''), WaitForNewContent (JStr ''t1''),
             RunContentScript (JStr ''t1'') (JStr ''click()'')
               (JObj [(''arg'', JNull), (''metadata'', JObj [(''runBeginTime'', JNum (of_nat 1000))])])]
          @ rest
   \<and> (rest = [] \<or> (\<exists>timer. rest = [Delay 5000, PromiseRace 0 timer]))"
  by (rule waitForNewPage_observes_before_script
        [where h = scripted and s_live = navigating and s_now = navigating and s_obs = navigating])
     (simp_all add: scripted_simps navigating_def)

text \<open>
  C10. When the script execution succeeds with a \<^verbatim>\<open>reject\<close> that is falsy, the call
  does not return at that point: it creates the timer and races, and its result is
  \<^verbatim>\<open>{reject: null}\<close> when the new content comes first and \<open>NewPageWaitTimeout\<close>
  otherwise.
\<close>

theorem waitForNewPage_falsy_reject_waits:
  fixes arg :: jsval
  assumes "typeof idv = ''string''" and "typeof code = ''string''"
    and "tm_hasTab h idv s = (True, s_live)"
    and "date_now h s_live = (t, s_now)"
    and "tm_waitForNewContent h idv s_now = (p, s_obs)"
    and "tm_runContentScript h idv code
           (JObj [(''arg'', arg), (''metadata'', JObj [(''runBeginTime'', JNum (of_nat t))])]) s_obs =
         (Inr (Reject v), s_ran)"
    and "\<not> truthy v"
    and "delay h timeoutMs s_ran = (timer, s_timer)"
    and "promise_race h p timer s_timer = (w, s_end)"
  shows "waitForNewPage (instrument h) idv code arg timeoutMs (s, tr) =
           ((case w of
               FirstSettled \<Rightarrow> Inr (Reject JNull)
             | SecondSettled \<Rightarrow>
                 Inl \<lparr>name = NewPageWaitTimeout,
                      message = [Lit ''Waiting for a new page timed out after '',
                                 Subst (JNum (timeoutMs / 1000)),
                                 Lit '' seconds'']\<rparr>),
            (s_end, tr @ [HasTab idv, WaitForNewContent idv,
               RunContentScript idv code
                 (JObj [(''arg'', arg), (''metadata'', JObj [(''runBeginTime'', JNum (of_nat t))])]),
               Delay timeoutMs, PromiseRace p timer]))"
  using waitForNewPage_valid [OF assms(1-6)] race_new_content_instrument [OF assms(8,9)] assms(7)
  by (cases w) (simp_all add: newPageWaitTimeoutError_def)

text \<open>
  C10, at a concrete input: the script rejects with \<open>0\<close>, the new content comes two
  seconds after the script has completed.
\<close>

theorem waitForNewPage_falsy_reject_waits_witness:
  "waitForNewPage (instrument scripted) (JStr ''t1'') (JStr ''click()'') JNull 5000
     (rejecting (JNum 0) (Some 12000), []) =
   (Inr (Reject JNull),
    (rejecting (JNum 0) (Some 12000)\<lparr>clock := 12000, runs := [], timer_at := Some 16000\<rparr>,
     [HasTab (JStr ''t1''), WaitForNewContent (JStr ''t1''),
      RunContentScript (JStr ''t1'') (JStr ''click()'')
        (JObj [(''arg'', JNull), (''metadata'', JObj [(''runBeginTime'', JNum 1000)])]),
      Delay 5000, PromiseRace 0 1]))"
  using waitForNewPage_falsy_reject_waits
    [where h = scripted and idv = "JStr ''t1''" and code = "JStr ''click()''" and arg = JNull
       and s = "rejecting (JNum 0) (Some 12000)" and s_live = "rejecting (JNum 0) (Some 12000)"
       and s_now = "rejecting (JNum 0) (Some 12000)" and s_obs = "rejecting (JNum 0) (Some 12000)"
       and t = 1000 and p = 0 and v = "JNum 0"
       and s_ran = "rejecting (JNum 0) (Some 12000)\<lparr>clock := 11000, runs := []\<rparr>" and timer = 1
       and s_timer = "rejecting (JNum 0) (Some 12000)\<lparr>clock := 11000, runs := [], timer_at := Some 16000\<rparr>"
       and w = FirstSettled
       and s_end = "rejecting (JNum 0) (Some 12000)\<lparr>clock := 12000, runs := [], timer_at := Some 16000\<rparr>"
       and tr = "[]" and timeoutMs = 5000]
  by (simp add: scripted_simps rejecting_def)

section \<open>Validation of the arguments\<close>

text \<open>
  C7, as amended. For each of the four handlers that take an id (\<^verbatim>\<open>navigateTab\<close>,
  \<^verbatim>\<open>run\<close>, \<^verbatim>\<open>wait\<close>, \<^verbatim>\<open>waitForNewPage\<close>) and every invalid id, the call fails
  with \<open>IllegalArgument\<close>; for an id that is not a string no call is made at all, and
  for a string that is not a live tab the one call made is the liveness check
  \<^verbatim>\<open>hasTab\<close>.
\<close>

theorem invalid_id_is_rejected:
  fixes h :: "'s host" and tr :: "call list"
  assumes "typeof idv \<noteq> ''string'' \<or> \<not> fst (tm_hasTab h idv s)"
  defines "after \<equiv>
    (if typeof idv = ''string'' then (snd (tm_hasTab h idv s), tr @ [HasTab idv]) else (s, tr))"
  shows "(\<exists>e. navigateTab (instrument h) idv url (s, tr) = (Inl e, after) \<and> name e = IllegalArgument)
       \<and> (\<exists>e. run (instrument h) idv code arg (s, tr) = (Inl e, after) \<and> name e = IllegalArgument)
       \<and> (\<exists>e. wait (instrument h) idv code arg (s, tr) = Some (Inl e, after) \<and> name e = IllegalArgument)
       \<and> (\<exists>e. waitForNewPage (instrument h) idv code arg timeoutMs (s, tr) = (Inl e, after)
              \<and> name e = IllegalArgument)"
proof -
  have bad: "invalid_id (instrument h) idv (s, tr) = (True, after)"
    using assms(1) by (auto simp: invalid_id_instrument after_def)
  show ?thesis
    by (simp add: navigateTab_def run_def wait_def waitForNewPage_def bad illegalArgumentError_def)
qed

text \<open>
  C7 as amended, at concrete inputs: a number as id, and the id of a tab that does not
  exist.
\<close>

theorem invalid_id_is_rejected_witness:
  "(\<exists>e. navigateTab (instrument scripted) (JNum 5) (JStr ''http://example.org/'') (slow_script, []) =
          (Inl e, (slow_script, [])) \<and> name e = IllegalArgument)
   \<and> (\<exists>e. run (instrument scripted) (JNum 5) (JStr ''click()'') JNull (slow_script, []) =
          (Inl e, (slow_script, [])) \<and> name e = IllegalArgument)
   \<and> (\<exists>e. wait (instrument scripted) (JStr ''gone'') (JStr ''click()'') JNull (slow_script, []) =
          Some (Inl e, (slow_script, [HasTab (JStr ''gone'')])) \<and> name e = IllegalArgument)
   \<and> (\<exists>e. waitForNewPage (instrument scripted) (JStr ''gone'') (JStr ''click()'') JNull 5000
            (slow_script, []) =
          (Inl e, (slow_script, [HasTab (JStr ''gone'')])) \<and> name e = IllegalArgument)"
proof -
  note number = invalid_id_is_rejected
    [where h = scripted and idv = "JNum 5" and s = slow_script and tr = "[]"
       and url = "JStr ''http://example.org/''" and code = "JStr ''click()''" and arg = JNull
       and timeoutMs = 5000]
  note unknown = invalid_id_is_rejected
    [where h = scripted and idv = "JStr ''gone''" and s = slow_script and tr = "[]"
       and url = "JStr ''http://example.org/''" and code = "JStr ''click()''" and arg = JNull
       and timeoutMs = 5000]
  have a: "typeof (JNum 5) \<noteq> ''string'' \<or> \<not> fst (tm_hasTab scripted (JNum 5) slow_script)"
    by simp
  have b: "typeof (JStr ''gone'') \<noteq> ''string'' \<or> \<not> fst (tm_hasTab scripted (JStr ''gone'') slow_script)"
    by (simp add: scripted_simps slow_script_def)
  from number [OF a] unknown [OF b] show ?thesis
    by (simp add: scripted_simps)
qed

text \<open>
  C7 as stated fails: for a string id that is not a live tab the tab manager's
  \<^verbatim>\<open>hasTab\<close> is invoked; and \<^verbatim>\<open>createTab\<close> has no id parameter, so it creates the tab
  whatever the caller supplies.
\<close>

theorem invalid_id_checks_liveness_counterexample:
  "navigateTab (instrument scripted) (JStr ''gone'') (JStr ''http://example.org/'') (slow_script, []) =
     (Inl \<lparr>name = IllegalArgument, message = [Lit ''tabs.navigate(): invalid argument `id`'']\<rparr>,
      (slow_script, [HasTab (JStr ''gone'')]))
   \<and> tab_manager_call (HasTab (JStr ''gone''))
   \<and> createTab (instrument scripted) (slow_script, []) =
       (Inr (JStr ''fresh''), (slow_script\<lparr>tabs := [JStr ''fresh'', JStr ''t1'']\<rparr>, [CreateTab]))"
  by (simp add: navigateTab_def createTab_def invalid_id_instrument instrument_simps scripted_simps
        slow_script_def illegalArgumentError_def)

text \<open>
  C8. The handler registered as \<^verbatim>\<open>tabs.waitForNewPage\<close> fails, on an invalid id or
  code, with the messages of \<^verbatim>\<open>tabs.run\<close>: the text \<^verbatim>\<open>tabs.waitForNewPage\<close> does not
  occur in them. The handlers \<^verbatim>\<open>run\<close>, \<^verbatim>\<open>wait\<close> and \<^verbatim>\<open>navigateTab\<close> name their own
  command.
\<close>

theorem waitForNewPage_errors_name_run:
  "map_of registry ''tabs.waitForNewPage'' = Some H_waitForNewPage
   \<and> fst (waitForNewPage scripted (JStr ''gone'') (JStr ''click()'') JNull 5000 slow_script) =
       Inl \<lparr>name = IllegalArgument, message = [Lit ''tabs.run(): invalid argument `id`'']\<rparr>
   \<and> fst (waitForNewPage scripted (JNum 5) (JStr ''click()'') JNull 5000 slow_script) =
       Inl \<lparr>name = IllegalArgument, message = [Lit ''tabs.run(): invalid argument `id`'']\<rparr>
   \<and> fst (waitForNewPage scripted (JStr ''t1'') (JNum 5) JNull 5000 slow_script) =
       Inl \<lparr>name = IllegalArgument, message = [Lit ''tabs.run(): invalid argument `code`'']\<rparr>
   \<and> fst (run scripted (JStr ''gone'') (JStr ''click()'') JNull slow_script) =
       Inl \<lparr>name = IllegalArgument, message = [Lit ''tabs.run(): invalid argument `id`'']\<rparr>
   \<and> map_option fst (wait scripted (JStr ''gone'') (JStr ''click()'') JNull slow_script) =
       Some (Inl \<lparr>name = IllegalArgument, message = [Lit ''tabs.wait(): invalid argument `id`'']\<rparr>)
   \<and> fst (navigateTab scripted (JStr ''gone'') (JStr ''http://example.org/'') slow_script) =
       Inl \<lparr>name = IllegalArgument, message = [Lit ''tabs.navigate(): invalid argument `id`'']\<rparr>
   \<and> occurs_in ''tabs.run'' ''tabs.run(): invalid argument `id`''
   \<and> \<not> occurs_in ''tabs.waitForNewPage'' ''tabs.run(): invalid argument `id`''
   \<and> \<not> occurs_in ''tabs.waitForNewPage'' ''tabs.run(): invalid argument `code`''"
  by (simp add: registry_def waitForNewPage_def run_def wait_def navigateTab_def invalid_id_def
        scripted_simps slow_script_def illegalArgumentError_def)

text \<open>
  C9. In a call to \<^verbatim>\<open>navigateTab\<close> with a valid id: when the url is not a string
  starting with \<^verbatim>\<open>http://\<close> or \<^verbatim>\<open>https://\<close>, the call fails with
  \<open>IllegalArgument\<close> and the only call made is the liveness check; otherwise the tab
  manager's \<^verbatim>\<open>navigateTab\<close> is called once with the id and the url, and its result and
  state are returned as they are.
\<close>

theorem navigateTab_checks_url:
  assumes "typeof idv = ''string''" and "tm_hasTab h idv s = (True, s_live)"
  shows "(\<not> absolute_http_url url \<longrightarrow>
            (\<exists>e. navigateTab (instrument h) idv url (s, tr) = (Inl e, (s_live, tr @ [HasTab idv]))
                 \<and> name e = IllegalArgument))
       \<and> (absolute_http_url url \<longrightarrow>
            navigateTab (instrument h) idv url (s, tr) =
              (fst (tm_navigateTab h idv url s_live),
               (snd (tm_navigateTab h idv url s_live), tr @ [HasTab idv, NavigateTab idv url])))"
  using assms
  by (cases url)
     (simp_all add: navigateTab_def invalid_id_instrument instrument_simps absolute_http_url_def
        allowed_url_take illegalArgumentError_def)

text \<open>
  C9, at concrete inputs: an \<^verbatim>\<open>ftp\<close> url is refused, an \<^verbatim>\<open>https\<close> url is passed on.
\<close>

theorem navigateTab_checks_url_witness:
  "(\<exists>e. navigateTab (instrument scripted) (JStr ''t1'') (JStr ''ftp://example.org/'') (slow_script, []) =
          (Inl e, (slow_script, [HasTab (JStr ''t1'')])) \<and> name e = IllegalArgument)
   \<and> navigateTab (instrument scripted) (JStr ''t1'') (JStr ''https://example.org/'') (slow_script, []) =
       (Inr (JObj [(''navigated'', JStr ''https://example.org/'')]),
        (slow_script\<lparr>clock := 1001\<rparr>,
         [HasTab (JStr ''t1''), NavigateTab (JStr ''t1'') (JStr ''https://example.org/'')]))"
proof -
  note refused = navigateTab_checks_url
    [where h = scripted and idv = "JStr ''t1''" and s = slow_script and s_live = slow_script
       and tr = "[]" and url = "JStr ''ftp://example.org/''", THEN conjunct1, rule_format]
  note delegated = navigateTab_checks_url
    [where h = scripted and idv = "JStr ''t1''" and s = slow_script and s_live = slow_script
       and tr = "[]" and url = "JStr ''https://example.org/''", THEN conjunct2, rule_format]
  have a: "\<exists>e. navigateTab (instrument scripted) (JStr ''t1'') (JStr ''ftp://example.org/'') (slow_script, []) =
          (Inl e, (slow_script, [HasTab (JStr ''t1'')])) \<and> name e = IllegalArgument"
    using refused by (simp add: scripted_simps slow_script_def absolute_http_url_def)
  have b: "navigateTab (instrument scripted) (JStr ''t1'') (JStr ''https://example.org/'') (slow_script, []) =
       (Inr (JObj [(''navigated'', JStr ''https://example.org/'')]),
        (slow_script\<lparr>clock := 1001\<rparr>,
         [HasTab (JStr ''t1''), NavigateTab (JStr ''t1'') (JStr ''https://example.org/'')]))"
    using delegated by (simp add: scripted_simps slow_script_def absolute_http_url_def)
  from a b show ?thesis by (rule conjI)
qed

end
